theory Spec2Isabelle
  imports Main "HOL-Library.Word"
begin

section \<open>The data model of pkger/models.go\<close>

text \<open>
  Modelled from the spec: \<^verbatim>\<open>influxdb.ID\<close> and \<^verbatim>\<open>influxdb.ResourceType\<close> are
  declared in the platform package, outside this file. The spec knows an identity
  with a zero sentinel and a resource kind; the platform's identifier is an unsigned
  64-bit integer and its resource type a string. \<^verbatim>\<open>time.Duration\<close> is a signed
  64-bit count of nanoseconds, here a 64-bit word read with \<open>sint\<close>. The functions of
  this file only copy these values and compare an identifier with zero.
\<close>

type_synonym ID = "64 word"
type_synonym Duration = "64 word"
type_synonym ResourceType = string

text \<open>
  Modelled from the spec: the declaration of \<^verbatim>\<open>influxdb.BucketsResourceType\<close> lives in
  the platform package, outside this file. The spec only calls it the one supported
  (bucket) kind; the string below stands for it, and the theorems use nothing of it
  but that other kinds differ from it.
\<close>

definition BucketsResourceType :: ResourceType where
  "BucketsResourceType = ''buckets''"

text \<open>
  Modelled from the spec: \<^verbatim>\<open>influxdb.Bucket\<close>, \<^verbatim>\<open>influxdb.Label\<close> and
  \<^verbatim>\<open>influxdb.LabelMapping\<close> are declared in the platform package, outside this
  file. They are given the fields this file reads or writes: the identity, owner,
  name, description and retention of a platform bucket, the identity, owner, name and
  property map of a platform label, and the three fields of a mapping. A Go map is
  \<open>None\<close> when it is nil; reading a nil map behaves as reading an empty one.
\<close>

record influxdb_Bucket =
  Bucket_ID :: ID
  Bucket_OrgID :: ID
  Bucket_Name :: string
  Bucket_Description :: string
  Bucket_RetentionPeriod :: Duration

record influxdb_Label =
  Label_ID :: ID
  Label_OrgID :: ID
  Label_Name :: string
  Label_Properties :: "(string \<rightharpoonup> string) option"

record influxdb_LabelMapping =
  LabelMapping_LabelID :: ID
  LabelMapping_ResourceID :: ID
  LabelMapping_ResourceType :: ResourceType

text \<open>The zero values \<^verbatim>\<open>influxdb.Bucket{}\<close> and \<^verbatim>\<open>influxdb.Label{}\<close>.\<close>

definition zero_Bucket :: influxdb_Bucket where
  "zero_Bucket = \<lparr>Bucket_ID = 0, Bucket_OrgID = 0, Bucket_Name = [],
     Bucket_Description = [], Bucket_RetentionPeriod = 0\<rparr>"

definition zero_Label :: influxdb_Label where
  "zero_Label = \<lparr>Label_ID = 0, Label_OrgID = 0, Label_Name = [], Label_Properties = None\<rparr>"

text \<open>
  \<^verbatim>\<open>m[k]\<close> on a \<^verbatim>\<open>map[string]string\<close>: the empty string for a nil map and for an
  absent key.
\<close>

definition string_index :: "(string \<rightharpoonup> string) option \<Rightarrow> string \<Rightarrow> string" where
  "string_index m k =
     (case m of None \<Rightarrow> []
      | Some f \<Rightarrow> (case f k of None \<Rightarrow> [] | Some s \<Rightarrow> s))"

record DiffBucket =
  DiffBucket_ID :: ID
  DiffBucket_Name :: string
  DiffBucket_OldDesc :: string
  DiffBucket_NewDesc :: string
  DiffBucket_OldRetention :: Duration
  DiffBucket_NewRetention :: Duration

record DiffLabel =
  DiffLabel_ID :: ID
  DiffLabel_Name :: string
  DiffLabel_OldColor :: string
  DiffLabel_NewColor :: string
  DiffLabel_OldDesc :: string
  DiffLabel_NewDesc :: string

record SummaryBucket =
  SummaryBucket_Bucket :: influxdb_Bucket
  SummaryBucket_Associations :: "influxdb_Label list"

record SummaryLabelMapping =
  SummaryLabelMapping_exists :: bool
  SummaryLabelMapping_ResourceName :: string
  SummaryLabelMapping_LabelName :: string
  SummaryLabelMapping_LabelMapping :: influxdb_LabelMapping

subsection \<open>Pointers and the store\<close>

text \<open>
  A bucket lists the labels attached to it (\<^verbatim>\<open>[]*label\<close>) and a label's index refers
  back to buckets (\<^verbatim>\<open>*bucket\<close> inside an \<^verbatim>\<open>interface{}\<close>), so the structs are
  cyclic and live in a store. A pointer is \<open>None\<close> when nil and an address otherwise;
  Go has no dangling pointers, so the store holds a struct at every address.
  Dereferencing nil panics.

  The \<^verbatim>\<open>existing\<close> fields point to platform structs that nothing in this file writes
  to and that point nowhere themselves; they hold the struct the pointer refers to, or
  \<open>None\<close> for nil.
\<close>

type_synonym addr = nat
type_synonym ptr = "addr option"

datatype panic = NilDereference

record bucket =
  bucket_id :: ID
  bucket_OrgID :: ID
  bucket_Description :: string
  bucket_Name :: string
  bucket_RetentionPeriod :: Duration
  bucket_labels :: "ptr list"
  bucket_existing :: "influxdb_Bucket option"

record labelMapKey =
  key_resType :: ResourceType
  key_name :: string

text \<open>
  The payload \<^verbatim>\<open>v interface{}\<close>: the nil interface, a \<^verbatim>\<open>*bucket\<close> (which may itself
  be a nil pointer: an interface holding a typed nil is not nil), a \<^verbatim>\<open>*label\<close>, or a
  value of any other dynamic type, of which only the type's name is kept.
\<close>

datatype iface =
    Nil_iface
  | Bucket_ref ptr
  | Label_ref ptr
  | Other_dyn string

record labelMapVal =
  lmv_exists :: bool
  lmv_v :: iface

record label =
  label_id :: ID
  label_OrgID :: ID
  label_Name :: string
  label_Color :: string
  label_Description :: string
  label_mappings :: "(labelMapKey \<rightharpoonup> labelMapVal) option"
  label_existing :: "influxdb_Label option"

record store =
  bucket_at :: "addr \<Rightarrow> bucket"
  label_at :: "addr \<Rightarrow> label"

section \<open>The functions\<close>

text \<open>
  A method or constructor that reads its \<^verbatim>\<open>*bucket\<close> or \<^verbatim>\<open>*label\<close> on entry takes
  the struct: the caller holds a non-nil pointer to it. \<^verbatim>\<open>setBucketMapping\<close>, which
  tests its receiver for nil and stores the bucket pointer, takes pointers.
\<close>

definition DiffBucket_IsNew :: "DiffBucket \<Rightarrow> bool" where
  "DiffBucket_IsNew d \<longleftrightarrow> DiffBucket_ID d = 0"

definition newDiffBucket :: "bucket \<Rightarrow> influxdb_Bucket \<Rightarrow> DiffBucket" where
  "newDiffBucket b i =
     \<lparr>DiffBucket_ID = Bucket_ID i,
      DiffBucket_Name = bucket_Name b,
      DiffBucket_OldDesc = Bucket_Description i,
      DiffBucket_NewDesc = bucket_Description b,
      DiffBucket_OldRetention = Bucket_RetentionPeriod i,
      DiffBucket_NewRetention = bucket_RetentionPeriod b\<rparr>"

definition DiffLabel_IsNew :: "DiffLabel \<Rightarrow> bool" where
  "DiffLabel_IsNew d \<longleftrightarrow> DiffLabel_ID d = 0"

definition newDiffLabel :: "label \<Rightarrow> influxdb_Label \<Rightarrow> DiffLabel" where
  "newDiffLabel l i =
     \<lparr>DiffLabel_ID = Label_ID i,
      DiffLabel_Name = label_Name l,
      DiffLabel_OldColor = string_index (Label_Properties i) ''color'',
      DiffLabel_NewColor = label_Color l,
      DiffLabel_OldDesc = string_index (Label_Properties i) ''description'',
      DiffLabel_NewDesc = label_Description l\<rparr>"

definition bucket_ID :: "bucket \<Rightarrow> ID" where
  "bucket_ID b =
     (case bucket_existing b of Some e \<Rightarrow> Bucket_ID e | None \<Rightarrow> bucket_id b)"

definition label_ID :: "label \<Rightarrow> ID" where
  "label_ID l =
     (case label_existing l of Some e \<Rightarrow> Label_ID e | None \<Rightarrow> label_id l)"

definition label_properties :: "label \<Rightarrow> (string \<rightharpoonup> string) option" where
  "label_properties l =
     Some [''color'' \<mapsto> label_Color l, ''description'' \<mapsto> label_Description l]"

text \<open>
  \<^verbatim>\<open>bucket.summarize\<close>: the loop appends one platform label per element of
  \<^verbatim>\<open>b.labels\<close>, in order; \<^verbatim>\<open>l.ID()\<close> on a nil element panics.
\<close>

definition association :: "label \<Rightarrow> influxdb_Label" where
  "association l =
     \<lparr>Label_ID = label_ID l, Label_OrgID = label_OrgID l, Label_Name = label_Name l,
      Label_Properties = label_properties l\<rparr>"

fun summarize_loop :: "store \<Rightarrow> ptr list \<Rightarrow> influxdb_Label list \<Rightarrow> panic + influxdb_Label list" where
  "summarize_loop st [] acc = Inr acc"
| "summarize_loop st (None # ps) acc = Inl NilDereference"
| "summarize_loop st (Some a # ps) acc =
     summarize_loop st ps (acc @ [association (label_at st a)])"

definition bucket_summarize :: "store \<Rightarrow> bucket \<Rightarrow> panic + SummaryBucket" where
  "bucket_summarize st b =
     (case summarize_loop st (bucket_labels b) [] of
        Inl e \<Rightarrow> Inl e
      | Inr ls \<Rightarrow>
          Inr \<lparr>SummaryBucket_Bucket =
                 \<lparr>Bucket_ID = bucket_ID b, Bucket_OrgID = bucket_OrgID b,
                  Bucket_Name = bucket_Name b, Bucket_Description = bucket_Description b,
                  Bucket_RetentionPeriod = bucket_RetentionPeriod b\<rparr>,
               SummaryBucket_Associations = ls\<rparr>)"

text \<open>
  \<^verbatim>\<open>labelMapVal.bucket\<close>: the nil test, then the checked type assertion, which
  succeeds exactly on a \<^verbatim>\<open>*bucket\<close> (nil pointer or not).
\<close>

definition labelMapVal_bucket :: "labelMapVal \<Rightarrow> ptr \<times> bool" where
  "labelMapVal_bucket l =
     (if lmv_v l = Nil_iface then (None, False)
      else (case lmv_v l of Bucket_ref b \<Rightarrow> (b, True) | _ \<Rightarrow> (None, False)))"

text \<open>
  \<^verbatim>\<open>l.mappings[k]\<close>: the zero \<^verbatim>\<open>labelMapVal\<close> for a nil map and for an absent key.
\<close>

definition zero_labelMapVal :: labelMapVal where
  "zero_labelMapVal = \<lparr>lmv_exists = False, lmv_v = Nil_iface\<rparr>"

definition mappings_index :: "(labelMapKey \<rightharpoonup> labelMapVal) option \<Rightarrow> labelMapKey \<Rightarrow> labelMapVal" where
  "mappings_index m k =
     (case m of None \<Rightarrow> zero_labelMapVal
      | Some f \<Rightarrow> (case f k of None \<Rightarrow> zero_labelMapVal | Some x \<Rightarrow> x))"

definition getMappedResourceID :: "store \<Rightarrow> label \<Rightarrow> labelMapKey \<Rightarrow> panic + ID" where
  "getMappedResourceID st l k =
     (if key_resType k = BucketsResourceType then
        (case labelMapVal_bucket (mappings_index (label_mappings l) k) of
           (b, ok) \<Rightarrow>
             if ok then
               (case b of None \<Rightarrow> Inl NilDereference
                | Some a \<Rightarrow> Inr (bucket_ID (bucket_at st a)))
             else Inr 0)
      else Inr 0)"

text \<open>
  \<^verbatim>\<open>label.mappingSummary\<close> ranges over the map. Go leaves the order of a map range
  unspecified, so the order the runtime picks is an argument: a list \<open>ks\<close> with
  \<open>range_order (label_mappings l) ks\<close>, every key of the map (\<open>index_keys\<close>; none for
  a nil map) once.
\<close>

definition index_keys :: "('k \<rightharpoonup> 'v) option \<Rightarrow> 'k set" where
  "index_keys m = (case m of None \<Rightarrow> {} | Some f \<Rightarrow> dom f)"

definition range_order :: "('k \<rightharpoonup> 'v) option \<Rightarrow> 'k list \<Rightarrow> bool" where
  "range_order m ks \<longleftrightarrow> distinct ks \<and> set ks = index_keys m"

fun mappingSummary_loop ::
  "store \<Rightarrow> label \<Rightarrow> labelMapKey list \<Rightarrow> SummaryLabelMapping list \<Rightarrow> panic + SummaryLabelMapping list" where
  "mappingSummary_loop st l [] acc = Inr acc"
| "mappingSummary_loop st l (res # ks) acc =
     (let lm = mappings_index (label_mappings l) res in
      case getMappedResourceID st l res of
        Inl e \<Rightarrow> Inl e
      | Inr rid \<Rightarrow>
          mappingSummary_loop st l ks
            (acc @ [\<lparr>SummaryLabelMapping_exists = lmv_exists lm,
                     SummaryLabelMapping_ResourceName = key_name res,
                     SummaryLabelMapping_LabelName = label_Name l,
                     SummaryLabelMapping_LabelMapping =
                       \<lparr>LabelMapping_LabelID = label_ID l,
                        LabelMapping_ResourceID = rid,
                        LabelMapping_ResourceType = key_resType res\<rparr>\<rparr>]))"

definition mappingSummary :: "store \<Rightarrow> labelMapKey list \<Rightarrow> label \<Rightarrow> panic + SummaryLabelMapping list" where
  "mappingSummary st ks l = mappingSummary_loop st l ks []"

text \<open>
  \<^verbatim>\<open>label.setBucketMapping\<close> writes the label at \<open>l\<close> in the store. A nil receiver
  returns at once; otherwise a nil index is replaced by an empty one, and then
  \<^verbatim>\<open>b.Name\<close> panics on a nil \<open>b\<close>. A panic ends the run: the store it leaves
  behind is not part of the result.
\<close>

definition setBucketMapping :: "store \<Rightarrow> ptr \<Rightarrow> ptr \<Rightarrow> bool \<Rightarrow> panic + store" where
  "setBucketMapping st l b exists =
     (case l of
        None \<Rightarrow> Inr st
      | Some la \<Rightarrow>
          (let m = (case label_mappings (label_at st la) of
                      None \<Rightarrow> Map.empty | Some f \<Rightarrow> f)
           in case b of
                None \<Rightarrow> Inl NilDereference
              | Some ba \<Rightarrow>
                  (let key = \<lparr>key_resType = BucketsResourceType,
                              key_name = bucket_Name (bucket_at st ba)\<rparr>;
                       val = \<lparr>lmv_exists = exists, lmv_v = Bucket_ref (Some ba)\<rparr>
                   in Inr (st\<lparr>label_at := (label_at st)
                        (la := (label_at st la)\<lparr>label_mappings := Some (m(key \<mapsto> val))\<rparr>)\<rparr>))))"

section \<open>The invariant of the index\<close>

text \<open>
  \<^verbatim>\<open>setBucketMapping\<close> is the only writer of a label's index, and what it stores
  under a key of the bucket kind is the non-nil bucket pointer it has just read the
  name from. An index is well formed when every entry under a bucket-kind key holds
  a non-nil bucket pointer.
\<close>

definition index_well_formed :: "label \<Rightarrow> bool" where
  "index_well_formed l \<longleftrightarrow>
     (\<forall>f k lm. label_mappings l = Some f \<and> f k = Some lm \<and>
        key_resType k = BucketsResourceType \<longrightarrow> (\<exists>a. lmv_v lm = Bucket_ref (Some a)))"

section \<open>Inputs and the output records owed to them\<close>

text \<open>
  \<open>summary_entry st l k r\<close>: the record \<open>r\<close> is the one \<^verbatim>\<open>mappingSummary\<close> owes to
  the key \<open>k\<close> of the label \<open>l\<close>: the entry's existence flag, the key's name and kind,
  the label's name and effective identity, and the identity that
  \<^verbatim>\<open>getMappedResourceID\<close> returns for \<open>k\<close>.
\<close>

definition summary_entry :: "store \<Rightarrow> label \<Rightarrow> labelMapKey \<Rightarrow> SummaryLabelMapping \<Rightarrow> bool" where
  "summary_entry st l k r \<longleftrightarrow>
     SummaryLabelMapping_exists r = lmv_exists (mappings_index (label_mappings l) k) \<and>
     SummaryLabelMapping_ResourceName r = key_name k \<and>
     SummaryLabelMapping_LabelName r = label_Name l \<and>
     LabelMapping_LabelID (SummaryLabelMapping_LabelMapping r) = label_ID l \<and>
     LabelMapping_ResourceType (SummaryLabelMapping_LabelMapping r) = key_resType k \<and>
     getMappedResourceID st l k = Inr (LabelMapping_ResourceID (SummaryLabelMapping_LabelMapping r))"

text \<open>
  \<open>association_entry st p x\<close>: the platform label \<open>x\<close> is the one
  \<^verbatim>\<open>bucket.summarize\<close> owes to the label pointer \<open>p\<close>: the pointer is not nil, and \<open>x\<close>
  carries the effective identity and the name of the label it points to and a property
  map with the two keys \<^verbatim>\<open>color\<close> and \<^verbatim>\<open>description\<close>, and no other, holding the
  label's color and description.
\<close>

definition association_entry :: "store \<Rightarrow> ptr \<Rightarrow> influxdb_Label \<Rightarrow> bool" where
  "association_entry st p x \<longleftrightarrow>
     (\<exists>a f. p = Some a \<and>
        Label_ID x = label_ID (label_at st a) \<and>
        Label_Name x = label_Name (label_at st a) \<and>
        Label_Properties x = Some f \<and>
        dom f = {''color'', ''description''} \<and>
        f ''color'' = Some (label_Color (label_at st a)) \<and>
        f ''description'' = Some (label_Description (label_at st a)))"

section \<open>Example states\<close>

text \<open>
  The concrete values the witnesses and counterexamples are evaluated on: a platform
  bucket with identity 42 and a platform label with identity 7; a desired bucket and a
  desired label with a non-zero placeholder, each once without and once with a platform
  counterpart; and a store holding them.
\<close>

definition ex_platform_bucket :: influxdb_Bucket where
  "ex_platform_bucket = \<lparr>Bucket_ID = 42, Bucket_OrgID = 1, Bucket_Name = ''b1'',
     Bucket_Description = ''old'', Bucket_RetentionPeriod = 86400000000000\<rparr>"

definition ex_platform_label :: influxdb_Label where
  "ex_platform_label = \<lparr>Label_ID = 7, Label_OrgID = 1, Label_Name = ''l1'',
     Label_Properties = Some [''color'' \<mapsto> ''red'']\<rparr>"

definition ex_bucket_new :: bucket where
  "ex_bucket_new = \<lparr>bucket_id = 5, bucket_OrgID = 1, bucket_Description = ''d1'',
     bucket_Name = ''b1'', bucket_RetentionPeriod = 3600000000000, bucket_labels = [],
     bucket_existing = None\<rparr>"

definition ex_bucket_matched :: bucket where
  "ex_bucket_matched = \<lparr>bucket_id = 5, bucket_OrgID = 1, bucket_Description = ''new'',
     bucket_Name = ''b1'', bucket_RetentionPeriod = 3600000000000,
     bucket_labels = [Some 0, Some 1], bucket_existing = Some ex_platform_bucket\<rparr>"

definition ex_label_new :: label where
  "ex_label_new = \<lparr>label_id = 9, label_OrgID = 1, label_Name = ''l1'',
     label_Color = ''blue'', label_Description = ''desc'', label_mappings = None,
     label_existing = None\<rparr>"

definition ex_label_matched :: label where
  "ex_label_matched = \<lparr>label_id = 9, label_OrgID = 1, label_Name = ''l1'',
     label_Color = ''blue'', label_Description = ''desc'', label_mappings = None,
     label_existing = Some ex_platform_label\<rparr>"

definition ex_store :: store where
  "ex_store =
     \<lparr>bucket_at = (\<lambda>a. if a = 2 then ex_bucket_matched else ex_bucket_new),
      label_at = (\<lambda>a. if a = 1 then ex_label_matched else ex_label_new)\<rparr>"

text \<open>
  Keys and labels with an index: a bucket-kind key and a key of another kind; a label
  whose bucket-kind entry holds a label pointer, one whose entries hold the bucket at
  address 2, and one whose entry holds the nil interface.
\<close>

definition ex_key :: labelMapKey where
  "ex_key = \<lparr>key_resType = BucketsResourceType, key_name = ''b1''\<rparr>"

definition ex_label_odd :: label where
  "ex_label_odd = ex_label_new\<lparr>label_mappings :=
     Some [ex_key \<mapsto> \<lparr>lmv_exists = True, lmv_v = Label_ref (Some 1)\<rparr>]\<rparr>"

definition ex_other_key :: labelMapKey where
  "ex_other_key = \<lparr>key_resType = ''labels'', key_name = ''b1''\<rparr>"

definition ex_label_mapped :: label where
  "ex_label_mapped = ex_label_new\<lparr>label_mappings :=
     Some [ex_key \<mapsto> \<lparr>lmv_exists = False, lmv_v = Bucket_ref (Some 2)\<rparr>,
           ex_other_key \<mapsto> \<lparr>lmv_exists = True, lmv_v = Bucket_ref (Some 2)\<rparr>]\<rparr>"

definition ex_label_nil_payload :: label where
  "ex_label_nil_payload = ex_label_new\<lparr>label_mappings :=
     Some [ex_key \<mapsto> \<lparr>lmv_exists = True, lmv_v = Nil_iface\<rparr>]\<rparr>"

section \<open>Identity resolution\<close>

lemmas ex_defs = ex_store_def ex_label_new_def ex_label_matched_def
  ex_bucket_new_def ex_bucket_matched_def ex_platform_bucket_def ex_platform_label_def
  ex_key_def BucketsResourceType_def

text \<open>
  C1. The effective identity of a bucket, and of a label, is the identity of the
  platform counterpart whenever the \<^verbatim>\<open>existing\<close> reference is not nil, whatever the
  local placeholder holds; with a nil reference it is the local placeholder.
\<close>

theorem effective_identity:
  "(bucket_existing b = Some e \<longrightarrow> bucket_ID b = Bucket_ID e) \<and>
   (bucket_existing b = None \<longrightarrow> bucket_ID b = bucket_id b) \<and>
   (label_existing l = Some e' \<longrightarrow> label_ID l = Label_ID e') \<and>
   (label_existing l = None \<longrightarrow> label_ID l = label_id l)"
  by (simp add: bucket_ID_def label_ID_def)

theorem effective_identity_witness:
  "bucket_ID ex_bucket_matched = 42 \<and> bucket_ID ex_bucket_new = 5 \<and>
   label_ID ex_label_matched = 7 \<and> label_ID ex_label_new = 9"
  using effective_identity [of ex_bucket_matched ex_platform_bucket ex_label_matched ex_platform_label]
    effective_identity [of ex_bucket_new ex_platform_bucket ex_label_new ex_platform_label]
  by (simp add: ex_bucket_matched_def ex_bucket_new_def ex_label_matched_def ex_label_new_def
      ex_platform_bucket_def ex_platform_label_def)

section \<open>Diff records\<close>

text \<open>
  C6. \<^verbatim>\<open>IsNew\<close> of a bucket diff, and of a label diff, is true exactly when the
  record's \<^verbatim>\<open>ID\<close> field is the zero identifier.
\<close>

theorem IsNew_iff_zero:
  "DiffBucket_IsNew d = (DiffBucket_ID d = 0) \<and> DiffLabel_IsNew d' = (DiffLabel_ID d' = 0)"
  by (simp add: DiffBucket_IsNew_def DiffLabel_IsNew_def)

text \<open>
  C4, as stated, fails: the \<^verbatim>\<open>ID\<close> of the diff is taken from the platform argument,
  not from the desired bucket. A desired bucket with placeholder 5 and no counterpart,
  diffed against the zero platform bucket, gets \<^verbatim>\<open>ID\<close> 0 while its effective
  identity is 5.
\<close>

theorem newDiffBucket_identity_counterexample:
  "bucket_existing ex_bucket_new = None \<and>
   DiffBucket_ID (newDiffBucket ex_bucket_new zero_Bucket) = 0 \<and>
   bucket_ID ex_bucket_new = 5 \<and>
   DiffBucket_ID (newDiffBucket ex_bucket_new zero_Bucket) \<noteq> bucket_ID ex_bucket_new"
  by (simp add: newDiffBucket_def zero_Bucket_def bucket_ID_def ex_bucket_new_def)

text \<open>
  C4, amended. \<^verbatim>\<open>newDiffBucket\<close> returns a record whose \<^verbatim>\<open>ID\<close>,
  \<^verbatim>\<open>OldDesc\<close> and \<^verbatim>\<open>OldRetention\<close> are the platform argument's identity,
  description and retention (zero, the empty string and the zero duration for the zero
  platform bucket), and whose \<^verbatim>\<open>Name\<close>, \<^verbatim>\<open>NewDesc\<close> and \<^verbatim>\<open>NewRetention\<close> are
  the desired bucket's; both sides are reported whether or not they differ. The
  \<^verbatim>\<open>ID\<close> is the effective identity of the desired bucket when the platform argument
  is the bucket's own counterpart, and when the bucket has no counterpart, a zero
  placeholder, and is diffed against the zero platform bucket.
\<close>

theorem newDiffBucket_fields:
  "DiffBucket_ID (newDiffBucket b i) = Bucket_ID i \<and>
   DiffBucket_Name (newDiffBucket b i) = bucket_Name b \<and>
   DiffBucket_OldDesc (newDiffBucket b i) = Bucket_Description i \<and>
   DiffBucket_OldRetention (newDiffBucket b i) = Bucket_RetentionPeriod i \<and>
   DiffBucket_NewDesc (newDiffBucket b i) = bucket_Description b \<and>
   DiffBucket_NewRetention (newDiffBucket b i) = bucket_RetentionPeriod b \<and>
   DiffBucket_ID (newDiffBucket b zero_Bucket) = 0 \<and>
   DiffBucket_OldDesc (newDiffBucket b zero_Bucket) = [] \<and>
   DiffBucket_OldRetention (newDiffBucket b zero_Bucket) = 0 \<and>
   (bucket_existing b = Some i \<longrightarrow> DiffBucket_ID (newDiffBucket b i) = bucket_ID b) \<and>
   (bucket_existing b = None \<and> bucket_id b = 0 \<longrightarrow>
      DiffBucket_ID (newDiffBucket b zero_Bucket) = bucket_ID b)"
  by (simp add: newDiffBucket_def zero_Bucket_def bucket_ID_def)

theorem newDiffBucket_fields_witness:
  "DiffBucket_ID (newDiffBucket ex_bucket_matched ex_platform_bucket) = bucket_ID ex_bucket_matched \<and>
   DiffBucket_ID (newDiffBucket ex_bucket_matched ex_platform_bucket) = 42 \<and>
   DiffBucket_OldDesc (newDiffBucket ex_bucket_matched ex_platform_bucket) = ''old'' \<and>
   DiffBucket_NewDesc (newDiffBucket ex_bucket_matched ex_platform_bucket) = ''new'' \<and>
   DiffBucket_ID (newDiffBucket (ex_bucket_new\<lparr>bucket_id := 0\<rparr>) zero_Bucket) =
     bucket_ID (ex_bucket_new\<lparr>bucket_id := 0\<rparr>)"
  using newDiffBucket_fields [of ex_bucket_matched ex_platform_bucket]
    newDiffBucket_fields [of "ex_bucket_new\<lparr>bucket_id := 0\<rparr>" zero_Bucket]
  by (simp add: ex_bucket_matched_def ex_bucket_new_def ex_platform_bucket_def
      newDiffBucket_def zero_Bucket_def bucket_ID_def)

text \<open>
  C5, as stated, fails in the same way: the \<^verbatim>\<open>ID\<close> of a label diff is the platform
  argument's. A desired label with placeholder 9 and no counterpart, diffed against the
  zero platform label, gets \<^verbatim>\<open>ID\<close> 0 while its effective identity is 9.
\<close>

theorem newDiffLabel_identity_counterexample:
  "label_existing ex_label_new = None \<and>
   DiffLabel_ID (newDiffLabel ex_label_new zero_Label) = 0 \<and>
   label_ID ex_label_new = 9 \<and>
   DiffLabel_ID (newDiffLabel ex_label_new zero_Label) \<noteq> label_ID ex_label_new"
  by (simp add: newDiffLabel_def zero_Label_def label_ID_def ex_label_new_def)

text \<open>
  C5, amended. \<^verbatim>\<open>newDiffLabel\<close> returns a record whose \<^verbatim>\<open>ID\<close> is the platform
  argument's identity, whose \<^verbatim>\<open>OldColor\<close> and \<^verbatim>\<open>OldDesc\<close> are the values of the
  platform label's property map under \<^verbatim>\<open>color\<close> and \<^verbatim>\<open>description\<close> (the empty
  string for the zero platform label and for an absent key), and whose \<^verbatim>\<open>Name\<close>,
  \<^verbatim>\<open>NewColor\<close> and \<^verbatim>\<open>NewDesc\<close> are the desired label's. The \<^verbatim>\<open>ID\<close> is the
  effective identity of the desired label when the platform argument is the label's
  own counterpart, and when the label has no counterpart, a zero placeholder, and is
  diffed against the zero platform label.
\<close>

theorem newDiffLabel_fields:
  "DiffLabel_ID (newDiffLabel l i) = Label_ID i \<and>
   DiffLabel_Name (newDiffLabel l i) = label_Name l \<and>
   DiffLabel_OldColor (newDiffLabel l i) = string_index (Label_Properties i) ''color'' \<and>
   DiffLabel_OldDesc (newDiffLabel l i) = string_index (Label_Properties i) ''description'' \<and>
   DiffLabel_NewColor (newDiffLabel l i) = label_Color l \<and>
   DiffLabel_NewDesc (newDiffLabel l i) = label_Description l \<and>
   DiffLabel_ID (newDiffLabel l zero_Label) = 0 \<and>
   DiffLabel_OldColor (newDiffLabel l zero_Label) = [] \<and>
   DiffLabel_OldDesc (newDiffLabel l zero_Label) = [] \<and>
   (Label_Properties i = Some f \<and> f ''color'' = None \<longrightarrow>
      DiffLabel_OldColor (newDiffLabel l i) = []) \<and>
   (Label_Properties i = Some f \<and> f ''description'' = None \<longrightarrow>
      DiffLabel_OldDesc (newDiffLabel l i) = []) \<and>
   (Label_Properties i = Some f \<and> f ''color'' = Some c \<longrightarrow>
      DiffLabel_OldColor (newDiffLabel l i) = c) \<and>
   (Label_Properties i = Some f \<and> f ''description'' = Some d \<longrightarrow>
      DiffLabel_OldDesc (newDiffLabel l i) = d) \<and>
   (label_existing l = Some i \<longrightarrow> DiffLabel_ID (newDiffLabel l i) = label_ID l) \<and>
   (label_existing l = None \<and> label_id l = 0 \<longrightarrow>
      DiffLabel_ID (newDiffLabel l zero_Label) = label_ID l)"
  by (simp add: newDiffLabel_def zero_Label_def label_ID_def string_index_def)

theorem newDiffLabel_fields_witness:
  "DiffLabel_ID (newDiffLabel ex_label_matched ex_platform_label) = label_ID ex_label_matched \<and>
   DiffLabel_ID (newDiffLabel ex_label_matched ex_platform_label) = 7 \<and>
   DiffLabel_OldColor (newDiffLabel ex_label_matched ex_platform_label) = ''red'' \<and>
   DiffLabel_OldDesc (newDiffLabel ex_label_matched ex_platform_label) = [] \<and>
   DiffLabel_NewColor (newDiffLabel ex_label_matched ex_platform_label) = ''blue'' \<and>
   DiffLabel_ID (newDiffLabel (ex_label_new\<lparr>label_id := 0\<rparr>) zero_Label) =
     label_ID (ex_label_new\<lparr>label_id := 0\<rparr>)"
  using newDiffLabel_fields [of ex_label_matched ex_platform_label "[''color'' \<mapsto> ''red'']" _ "''red''"]
    newDiffLabel_fields [of "ex_label_new\<lparr>label_id := 0\<rparr>" zero_Label]
  by (simp add: ex_label_matched_def ex_label_new_def ex_platform_label_def
      newDiffLabel_def zero_Label_def label_ID_def string_index_def)

section \<open>The association index of a label\<close>

text \<open>
  A nil index is well formed, and \<^verbatim>\<open>setBucketMapping\<close> keeps an index well formed;
  a well-formed index holds no nil bucket pointer.
\<close>

lemma index_well_formed_nil: "label_mappings l = None \<Longrightarrow> index_well_formed l"
  by (simp add: index_well_formed_def)

lemma setBucketMapping_keeps_well_formed:
  assumes "setBucketMapping st (Some la) b e = Inr st'"
    and "index_well_formed (label_at st la)"
  shows "index_well_formed (label_at st' la)"
proof (cases b)
  case None
  with assms(1) show ?thesis by (simp add: setBucketMapping_def)
next
  case (Some ba)
  with assms show ?thesis
    by (auto simp: setBucketMapping_def index_well_formed_def split: option.splits if_splits)
qed

lemma index_well_formed_no_nil_bucket:
  assumes "index_well_formed l" and "key_resType k = BucketsResourceType"
  shows "lmv_v (mappings_index (label_mappings l) k) \<noteq> Bucket_ref None"
proof (cases "label_mappings l")
  case None
  then show ?thesis by (simp add: mappings_index_def zero_labelMapVal_def)
next
  case (Some f)
  show ?thesis
  proof (cases "f k")
    case None
    with Some show ?thesis by (simp add: mappings_index_def zero_labelMapVal_def)
  next
    case (Some lm)
    with \<open>label_mappings l = Some f\<close> assms obtain a where "lmv_v lm = Bucket_ref (Some a)"
      unfolding index_well_formed_def by blast
    with Some \<open>label_mappings l = Some f\<close> show ?thesis by (simp add: mappings_index_def)
  qed
qed

lemma ex_label_mapped_well_formed: "index_well_formed ex_label_mapped"
  by (auto simp: index_well_formed_def ex_label_mapped_def ex_label_new_def ex_key_def
      ex_other_key_def BucketsResourceType_def split: if_splits)

text \<open>
  C2. \<^verbatim>\<open>getMappedResourceID\<close> returns the effective identity of the referenced
  bucket when the key is of the bucket kind and the index holds an entry for it: for
  any entry that holds a non-nil bucket pointer, and so for every entry of a well-formed
  index. For a key of any other kind, with or without an entry, and for a key with no
  entry (a nil index included), it returns zero and does not panic.
\<close>

theorem getMappedResourceID_cases:
  "(key_resType k = BucketsResourceType \<and> label_mappings l = Some f \<and> f k = Some lm \<and>
      lmv_v lm = Bucket_ref (Some a) \<longrightarrow>
        getMappedResourceID st l k = Inr (bucket_ID (bucket_at st a))) \<and>
   (index_well_formed l \<and> key_resType k = BucketsResourceType \<and>
      label_mappings l = Some f \<and> f k = Some lm \<longrightarrow>
        (\<exists>a. lmv_v lm = Bucket_ref (Some a) \<and>
           getMappedResourceID st l k = Inr (bucket_ID (bucket_at st a)))) \<and>
   (key_resType k \<noteq> BucketsResourceType \<longrightarrow> getMappedResourceID st l k = Inr 0) \<and>
   (label_mappings l = None \<longrightarrow> getMappedResourceID st l k = Inr 0) \<and>
   (label_mappings l = Some f \<and> f k = None \<longrightarrow> getMappedResourceID st l k = Inr 0)"
proof -
  have "\<exists>a. lmv_v lm = Bucket_ref (Some a) \<and>
           getMappedResourceID st l k = Inr (bucket_ID (bucket_at st a))"
    if "index_well_formed l" "key_resType k = BucketsResourceType"
      "label_mappings l = Some f" "f k = Some lm"
  proof -
    from that obtain a where "lmv_v lm = Bucket_ref (Some a)"
      unfolding index_well_formed_def by blast
    with that show ?thesis
      by (simp add: getMappedResourceID_def mappings_index_def labelMapVal_bucket_def)
  qed
  then show ?thesis
    by (simp add: getMappedResourceID_def mappings_index_def labelMapVal_bucket_def
      zero_labelMapVal_def)
qed

theorem getMappedResourceID_cases_witness:
  "index_well_formed ex_label_mapped \<and>
   getMappedResourceID ex_store ex_label_mapped ex_key = Inr 42 \<and>
   getMappedResourceID ex_store ex_label_mapped ex_other_key = Inr 0 \<and>
   getMappedResourceID ex_store ex_label_new ex_key = Inr 0 \<and>
   getMappedResourceID ex_store ex_label_mapped (ex_key\<lparr>key_name := ''b2''\<rparr>) = Inr 0"
  using ex_label_mapped_well_formed
    getMappedResourceID_cases [of ex_key ex_label_mapped
      "[ex_key \<mapsto> \<lparr>lmv_exists = False, lmv_v = Bucket_ref (Some 2)\<rparr>,
        ex_other_key \<mapsto> \<lparr>lmv_exists = True, lmv_v = Bucket_ref (Some 2)\<rparr>]"
      "\<lparr>lmv_exists = False, lmv_v = Bucket_ref (Some 2)\<rparr>" 2 ex_store]
    getMappedResourceID_cases [of ex_other_key ex_label_mapped _ _ _ ex_store]
    getMappedResourceID_cases [of ex_key ex_label_new _ _ _ ex_store]
    getMappedResourceID_cases [of "ex_key\<lparr>key_name := ''b2''\<rparr>" ex_label_mapped
      "[ex_key \<mapsto> \<lparr>lmv_exists = False, lmv_v = Bucket_ref (Some 2)\<rparr>,
        ex_other_key \<mapsto> \<lparr>lmv_exists = True, lmv_v = Bucket_ref (Some 2)\<rparr>]" _ _ ex_store]
  by (simp add: ex_defs ex_other_key_def ex_label_mapped_def bucket_ID_def)

text \<open>
  C10. For a key of the bucket kind whose entry exists but holds the nil interface, or
  a value that is not a \<^verbatim>\<open>*bucket\<close>, the checked type assertion yields
  \<^verbatim>\<open>(nil, false)\<close> and \<^verbatim>\<open>getMappedResourceID\<close> returns zero without a panic.
\<close>

theorem getMappedResourceID_fallback:
  assumes "key_resType k = BucketsResourceType"
    and "label_mappings l = Some f" and "f k = Some lm"
    and "lmv_v lm = Nil_iface \<or> (\<forall>p. lmv_v lm \<noteq> Bucket_ref p)"
  shows "labelMapVal_bucket lm = (None, False) \<and> getMappedResourceID st l k = Inr 0"
proof -
  from assms(4) have "labelMapVal_bucket lm = (None, False)"
    by (cases "lmv_v lm") (auto simp: labelMapVal_bucket_def)
  with assms(1-3) show ?thesis
    by (simp add: getMappedResourceID_def mappings_index_def)
qed

theorem getMappedResourceID_fallback_witness:
  "getMappedResourceID ex_store ex_label_nil_payload ex_key = Inr 0 \<and>
   getMappedResourceID ex_store ex_label_odd ex_key = Inr 0"
proof -
  have a: "getMappedResourceID ex_store ex_label_nil_payload ex_key = Inr 0"
    using getMappedResourceID_fallback [of ex_key ex_label_nil_payload
        "[ex_key \<mapsto> \<lparr>lmv_exists = True, lmv_v = Nil_iface\<rparr>]"
        "\<lparr>lmv_exists = True, lmv_v = Nil_iface\<rparr>" ex_store]
    by (simp add: ex_defs ex_label_nil_payload_def ex_label_odd_def)
  have b: "getMappedResourceID ex_store ex_label_odd ex_key = Inr 0"
    using getMappedResourceID_fallback [of ex_key ex_label_odd
        "[ex_key \<mapsto> \<lparr>lmv_exists = True, lmv_v = Label_ref (Some 1)\<rparr>]"
        "\<lparr>lmv_exists = True, lmv_v = Label_ref (Some 1)\<rparr>" ex_store]
    by (simp add: ex_defs ex_label_nil_payload_def ex_label_odd_def)
  from a b show ?thesis by simp
qed

text \<open>
  The one payload on which \<^verbatim>\<open>getMappedResourceID\<close> panics: a nil \<^verbatim>\<open>*bucket\<close>
  inside a non-nil interface passes both the nil test and the type assertion, and
  \<^verbatim>\<open>b.ID()\<close> dereferences it.
\<close>

lemma getMappedResourceID_typed_nil:
  assumes "key_resType k = BucketsResourceType"
    and "label_mappings l = Some f" and "f k = Some lm"
    and "lmv_v lm = Bucket_ref None"
  shows "getMappedResourceID st l k = Inl NilDereference"
  using assms
  by (simp add: getMappedResourceID_def mappings_index_def labelMapVal_bucket_def)

text \<open>
  C9. \<^verbatim>\<open>setBucketMapping\<close> on a nil label returns normally and leaves the store as
  it is, whatever the bucket argument. On a label whose index is nil, with a non-nil
  bucket, it returns normally and the label's index becomes the one-entry map holding
  the new entry at the key of the bucket kind and the bucket's name; nothing else in
  the store changes.
\<close>

theorem setBucketMapping_nil_and_fresh:
  "setBucketMapping st None b e = Inr st \<and>
   (label_mappings (label_at st la) = None \<longrightarrow>
      setBucketMapping st (Some la) (Some ba) e =
        Inr (st\<lparr>label_at := (label_at st)(la := (label_at st la)\<lparr>label_mappings :=
          Some [\<lparr>key_resType = BucketsResourceType, key_name = bucket_Name (bucket_at st ba)\<rparr>
                  \<mapsto> \<lparr>lmv_exists = e, lmv_v = Bucket_ref (Some ba)\<rparr>]\<rparr>)\<rparr>))"
  by (simp add: setBucketMapping_def)

theorem setBucketMapping_nil_and_fresh_witness:
  "label_mappings (label_at ex_store 0) = None \<and>
   setBucketMapping ex_store None (Some 2) True = Inr ex_store \<and>
   (\<exists>st'. setBucketMapping ex_store (Some 0) (Some 2) True = Inr st' \<and>
      mappings_index (label_mappings (label_at st' 0)) ex_key =
        \<lparr>lmv_exists = True, lmv_v = Bucket_ref (Some 2)\<rparr> \<and>
      getMappedResourceID st' (label_at st' 0) ex_key = Inr 42)"
  using setBucketMapping_nil_and_fresh [of ex_store "Some 2" True 0 2]
  by (simp add: ex_defs mappings_index_def getMappedResourceID_def labelMapVal_bucket_def
      bucket_ID_def)

lemma count_list_distinct: "distinct xs \<Longrightarrow> x \<in> set xs \<Longrightarrow> count_list xs x = 1"
  by (induction xs) auto

lemma count_list_distinct_le: "distinct xs \<Longrightarrow> count_list xs x \<le> Suc 0"
  by (induction xs) (auto simp: count_list_0_iff)


text \<open>
  C3. Two calls of \<^verbatim>\<open>setBucketMapping\<close> on the same label with buckets of the same
  name, so with the same key, both return normally, and the index is then the
  original one with that key mapped to the second call's bucket pointer and existence
  flag: nothing of the first call is left, the other keys are untouched, and in any
  enumeration of the index the key occurs once and no key occurs twice.
\<close>

theorem setBucketMapping_last_write_wins:
  assumes "bucket_Name (bucket_at st b1) = bucket_Name (bucket_at st b2)"
  shows "\<exists>st1 st2.
    setBucketMapping st (Some la) (Some b1) e1 = Inr st1 \<and>
    setBucketMapping st1 (Some la) (Some b2) e2 = Inr st2 \<and>
    label_mappings (label_at st2 la) =
      Some ((case label_mappings (label_at st la) of None \<Rightarrow> Map.empty | Some f \<Rightarrow> f)
        (\<lparr>key_resType = BucketsResourceType, key_name = bucket_Name (bucket_at st b2)\<rparr>
           \<mapsto> \<lparr>lmv_exists = e2, lmv_v = Bucket_ref (Some b2)\<rparr>)) \<and>
    (\<forall>ks. range_order (label_mappings (label_at st2 la)) ks \<longrightarrow>
       count_list ks \<lparr>key_resType = BucketsResourceType,
                      key_name = bucket_Name (bucket_at st b2)\<rparr> = 1 \<and>
       (\<forall>k. count_list ks k \<le> 1))"
  using assms
  by (auto simp: setBucketMapping_def range_order_def index_keys_def count_list_distinct
      count_list_distinct_le)

theorem setBucketMapping_last_write_wins_witness:
  "bucket_Name (bucket_at ex_store 0) = bucket_Name (bucket_at ex_store 2) \<and>
   (\<exists>st1 st2.
      setBucketMapping ex_store (Some 0) (Some 0) False = Inr st1 \<and>
      setBucketMapping st1 (Some 0) (Some 2) True = Inr st2 \<and>
      label_mappings (label_at st2 0) =
        Some [ex_key \<mapsto> \<lparr>lmv_exists = True, lmv_v = Bucket_ref (Some 2)\<rparr>] \<and>
      mappingSummary st2 [ex_key] (label_at st2 0) =
        Inr [\<lparr>SummaryLabelMapping_exists = True,
              SummaryLabelMapping_ResourceName = ''b1'',
              SummaryLabelMapping_LabelName = ''l1'',
              SummaryLabelMapping_LabelMapping =
                \<lparr>LabelMapping_LabelID = 9, LabelMapping_ResourceID = 42,
                 LabelMapping_ResourceType = BucketsResourceType\<rparr>\<rparr>])"
proof -
  have n: "bucket_Name (bucket_at ex_store 0) = bucket_Name (bucket_at ex_store 2)"
    by (simp add: ex_store_def ex_bucket_new_def ex_bucket_matched_def)
  from setBucketMapping_last_write_wins [OF n, of 0 False True]
  obtain st1 st2 where
    s1: "setBucketMapping ex_store (Some 0) (Some 0) False = Inr st1" and
    s2: "setBucketMapping st1 (Some 0) (Some 2) True = Inr st2" and
    m: "label_mappings (label_at st2 0) =
      Some ((case label_mappings (label_at ex_store 0) of None \<Rightarrow> Map.empty | Some f \<Rightarrow> f)
        (\<lparr>key_resType = BucketsResourceType, key_name = bucket_Name (bucket_at ex_store 2)\<rparr>
           \<mapsto> \<lparr>lmv_exists = True, lmv_v = Bucket_ref (Some 2)\<rparr>))"
    by blast
  from m have m': "label_mappings (label_at st2 0) =
      Some [ex_key \<mapsto> \<lparr>lmv_exists = True, lmv_v = Bucket_ref (Some 2)\<rparr>]"
    by (simp add: ex_store_def ex_label_new_def ex_bucket_matched_def ex_key_def)
  from s1 have b1: "bucket_at st1 = bucket_at ex_store" and
      l1: "label_existing (label_at st1 0) = None" "label_id (label_at st1 0) = 9"
        "label_Name (label_at st1 0) = ''l1''"
    by (auto simp: setBucketMapping_def ex_store_def ex_label_new_def)
  from s2 b1 l1 have "bucket_at st2 2 = ex_bucket_matched" and
      "label_Name (label_at st2 0) = ''l1''" "label_ID (label_at st2 0) = 9"
    by (auto simp: setBucketMapping_def ex_store_def label_ID_def)
  with m' have "mappingSummary st2 [ex_key] (label_at st2 0) =
        Inr [\<lparr>SummaryLabelMapping_exists = True,
              SummaryLabelMapping_ResourceName = ''b1'',
              SummaryLabelMapping_LabelName = ''l1'',
              SummaryLabelMapping_LabelMapping =
                \<lparr>LabelMapping_LabelID = 9, LabelMapping_ResourceID = 42,
                 LabelMapping_ResourceType = BucketsResourceType\<rparr>\<rparr>]"
    by (simp add: mappingSummary_def getMappedResourceID_def mappings_index_def
        labelMapVal_bucket_def bucket_ID_def ex_key_def ex_bucket_matched_def
        ex_platform_bucket_def)
  with n s1 s2 m' show ?thesis by blast
qed

section \<open>Summaries\<close>

lemma getMappedResourceID_returns:
  assumes "key_resType k = BucketsResourceType \<longrightarrow>
             lmv_v (mappings_index (label_mappings l) k) \<noteq> Bucket_ref None"
  shows "\<exists>rid. getMappedResourceID st l k = Inr rid"
proof (cases "labelMapVal_bucket (mappings_index (label_mappings l) k)")
  case (Pair b ok)
  show ?thesis
  proof (cases "key_resType k = BucketsResourceType \<and> ok")
    case False
    with Pair show ?thesis by (auto simp: getMappedResourceID_def)
  next
    case True
    with Pair assms have "b \<noteq> None"
      by (auto simp: labelMapVal_bucket_def split: if_splits iface.splits)
    with True Pair show ?thesis by (auto simp: getMappedResourceID_def)
  qed
qed

lemma mappingSummary_loop_entries:
  assumes "\<forall>k\<in>set ks. \<exists>rid. getMappedResourceID st l k = Inr rid"
  shows "\<exists>rs. mappingSummary_loop st l ks acc = Inr (acc @ rs) \<and>
           list_all2 (summary_entry st l) ks rs"
  using assms
proof (induction ks arbitrary: acc)
  case Nil
  then show ?case by simp
next
  case (Cons k ks)
  from Cons.prems obtain rid where rid: "getMappedResourceID st l k = Inr rid"
    by auto
  define r where "r = \<lparr>SummaryLabelMapping_exists = lmv_exists (mappings_index (label_mappings l) k),
                     SummaryLabelMapping_ResourceName = key_name k,
                     SummaryLabelMapping_LabelName = label_Name l,
                     SummaryLabelMapping_LabelMapping =
                       \<lparr>LabelMapping_LabelID = label_ID l,
                        LabelMapping_ResourceID = rid,
                        LabelMapping_ResourceType = key_resType k\<rparr>\<rparr>"
  from Cons.prems have "\<forall>k\<in>set ks. \<exists>rid. getMappedResourceID st l k = Inr rid"
    by simp
  from Cons.IH [OF this, of "acc @ [r]"] obtain rs where
    rs: "mappingSummary_loop st l ks (acc @ [r]) = Inr ((acc @ [r]) @ rs)"
      "list_all2 (summary_entry st l) ks rs"
    by blast
  have "summary_entry st l k r"
    by (simp add: summary_entry_def r_def rid)
  with rs have "mappingSummary_loop st l (k # ks) acc = Inr (acc @ (r # rs)) \<and>
      list_all2 (summary_entry st l) (k # ks) (r # rs)"
    by (simp add: rid r_def)
  then show ?case by blast
qed

text \<open>
  C7. For a label whose index holds no nil bucket pointer under a bucket-kind key (so
  for every label with a well-formed index), and whatever order \<open>ks\<close> the range
  visits the keys of the index in, \<^verbatim>\<open>mappingSummary\<close>
  returns one record per key, as many as the index has keys, in that order; the
  record of a key carries the existence flag stored at the key, the label's own name and
  effective identity, the key's name and kind, and the identity
  \<^verbatim>\<open>getMappedResourceID\<close> returns for the key.
\<close>

theorem mappingSummary_one_record_per_key:
  assumes "range_order (label_mappings l) ks"
    and "\<forall>k\<in>set ks. key_resType k = BucketsResourceType \<longrightarrow>
           lmv_v (mappings_index (label_mappings l) k) \<noteq> Bucket_ref None"
  shows "\<exists>rs. mappingSummary st ks l = Inr rs \<and>
           length rs = card (index_keys (label_mappings l)) \<and>
           list_all2 (summary_entry st l) ks rs"
proof -
  from assms(2) have "\<forall>k\<in>set ks. \<exists>rid. getMappedResourceID st l k = Inr rid"
    by (blast intro: getMappedResourceID_returns)
  from mappingSummary_loop_entries [OF this, of "[]"] obtain rs where
    rs: "mappingSummary st ks l = Inr rs" "list_all2 (summary_entry st l) ks rs"
    by (auto simp: mappingSummary_def)
  from rs(2) have "length rs = length ks"
    by (simp add: list_all2_lengthD)
  also from assms(1) have "length ks = card (index_keys (label_mappings l))"
    by (metis range_order_def distinct_card)
  finally show ?thesis using rs by blast
qed

theorem mappingSummary_one_record_per_key_witness:
  "range_order (label_mappings ex_label_mapped) [ex_other_key, ex_key] \<and>
   card (index_keys (label_mappings ex_label_mapped)) = 2 \<and>
   mappingSummary ex_store [ex_other_key, ex_key] ex_label_mapped =
     Inr [\<lparr>SummaryLabelMapping_exists = True,
           SummaryLabelMapping_ResourceName = ''b1'',
           SummaryLabelMapping_LabelName = ''l1'',
           SummaryLabelMapping_LabelMapping =
             \<lparr>LabelMapping_LabelID = 9, LabelMapping_ResourceID = 0,
              LabelMapping_ResourceType = ''labels''\<rparr>\<rparr>,
          \<lparr>SummaryLabelMapping_exists = False,
           SummaryLabelMapping_ResourceName = ''b1'',
           SummaryLabelMapping_LabelName = ''l1'',
           SummaryLabelMapping_LabelMapping =
             \<lparr>LabelMapping_LabelID = 9, LabelMapping_ResourceID = 42,
              LabelMapping_ResourceType = BucketsResourceType\<rparr>\<rparr>]"
proof -
  have ro: "range_order (label_mappings ex_label_mapped) [ex_other_key, ex_key]"
    by (auto simp: range_order_def index_keys_def ex_defs ex_other_key_def ex_label_mapped_def)
  have wf: "\<forall>k\<in>set [ex_other_key, ex_key]. key_resType k = BucketsResourceType \<longrightarrow>
      lmv_v (mappings_index (label_mappings ex_label_mapped) k) \<noteq> Bucket_ref None"
    by (simp add: mappings_index_def ex_defs ex_other_key_def ex_label_mapped_def)
  from mappingSummary_one_record_per_key [OF ro wf, of ex_store] obtain rs where
    rs: "mappingSummary ex_store [ex_other_key, ex_key] ex_label_mapped = Inr rs"
      "length rs = card (index_keys (label_mappings ex_label_mapped))"
    by blast
  have ev: "mappingSummary ex_store [ex_other_key, ex_key] ex_label_mapped =
     Inr [\<lparr>SummaryLabelMapping_exists = True,
           SummaryLabelMapping_ResourceName = ''b1'',
           SummaryLabelMapping_LabelName = ''l1'',
           SummaryLabelMapping_LabelMapping =
             \<lparr>LabelMapping_LabelID = 9, LabelMapping_ResourceID = 0,
              LabelMapping_ResourceType = ''labels''\<rparr>\<rparr>,
          \<lparr>SummaryLabelMapping_exists = False,
           SummaryLabelMapping_ResourceName = ''b1'',
           SummaryLabelMapping_LabelName = ''l1'',
           SummaryLabelMapping_LabelMapping =
             \<lparr>LabelMapping_LabelID = 9, LabelMapping_ResourceID = 42,
              LabelMapping_ResourceType = BucketsResourceType\<rparr>\<rparr>]"
    by (simp add: mappingSummary_def getMappedResourceID_def mappings_index_def
        labelMapVal_bucket_def bucket_ID_def label_ID_def ex_defs ex_other_key_def ex_label_mapped_def)
  with rs have "card (index_keys (label_mappings ex_label_mapped)) = 2"
    by auto
  with ro ev show ?thesis by simp
qed

lemma summarize_loop_associations:
  assumes "\<forall>p\<in>set ps. p \<noteq> None"
  shows "summarize_loop st ps acc = Inr (acc @ map (\<lambda>p. association (label_at st (the p))) ps)"
  using assms
proof (induction ps arbitrary: acc)
  case Nil
  then show ?case by simp
next
  case (Cons p ps)
  then obtain a where "p = Some a" by auto
  with Cons show ?case by simp
qed

lemma summarize_loop_nil_panics:
  "None \<in> set ps \<Longrightarrow> summarize_loop st ps acc = Inl NilDereference"
  by (induction st ps acc rule: summarize_loop.induct) auto

lemma bucket_summarize_nil_label:
  "None \<in> set (bucket_labels b) \<Longrightarrow> bucket_summarize st b = Inl NilDereference"
  by (simp add: bucket_summarize_def summarize_loop_nil_panics)

lemma association_entry_association:
  "association_entry st (Some a) (association (label_at st a))"
  by (auto simp: association_entry_def association_def label_properties_def)

text \<open>
  C8. For a bucket whose label pointers are not nil, \<^verbatim>\<open>bucket.summarize\<close> returns a
  summary whose identity is the bucket's effective identity and whose associations
  correspond one to one, in order, to the labels of the bucket; each carries the
  label's effective identity and name and a property map with exactly the keys
  \<^verbatim>\<open>color\<close> and \<^verbatim>\<open>description\<close>.
\<close>

theorem bucket_summarize_associations:
  assumes "\<forall>p\<in>set (bucket_labels b). p \<noteq> None"
  shows "\<exists>s. bucket_summarize st b = Inr s \<and>
           Bucket_ID (SummaryBucket_Bucket s) = bucket_ID b \<and>
           length (SummaryBucket_Associations s) = length (bucket_labels b) \<and>
           list_all2 (association_entry st) (bucket_labels b) (SummaryBucket_Associations s)"
proof -
  let ?ls = "map (\<lambda>p. association (label_at st (the p))) (bucket_labels b)"
  from assms have "summarize_loop st (bucket_labels b) [] = Inr ?ls"
    by (simp add: summarize_loop_associations)
  moreover from assms have "list_all2 (association_entry st) (bucket_labels b) ?ls"
    by (auto simp: list_all2_map2 list_all2_same association_entry_association)
  ultimately show ?thesis
    by (simp add: bucket_summarize_def)
qed

theorem bucket_summarize_associations_witness:
  "bucket_labels ex_bucket_matched = [Some 0, Some 1] \<and>
   bucket_summarize ex_store ex_bucket_matched =
     Inr \<lparr>SummaryBucket_Bucket =
            \<lparr>Bucket_ID = 42, Bucket_OrgID = 1, Bucket_Name = ''b1'',
             Bucket_Description = ''new'', Bucket_RetentionPeriod = 3600000000000\<rparr>,
          SummaryBucket_Associations =
            [\<lparr>Label_ID = 9, Label_OrgID = 1, Label_Name = ''l1'',
              Label_Properties = Some [''color'' \<mapsto> ''blue'', ''description'' \<mapsto> ''desc'']\<rparr>,
             \<lparr>Label_ID = 7, Label_OrgID = 1, Label_Name = ''l1'',
              Label_Properties = Some [''color'' \<mapsto> ''blue'', ''description'' \<mapsto> ''desc'']\<rparr>]\<rparr>"
proof -
  have nn: "\<forall>p\<in>set (bucket_labels ex_bucket_matched). p \<noteq> None"
    by (simp add: ex_bucket_matched_def)
  from bucket_summarize_associations [OF nn, of ex_store] obtain s where
    "bucket_summarize ex_store ex_bucket_matched = Inr s"
    "length (SummaryBucket_Associations s) = length (bucket_labels ex_bucket_matched)"
    by blast
  then show ?thesis
    by (simp add: bucket_summarize_def association_def label_properties_def bucket_ID_def
        label_ID_def ex_defs)
qed

end
